theory Spec2Isabelle
  imports Main "HOL-Library.Sublist" "HOL-Library.AList"
begin

section \<open>Python values and the MCP protocol types\<close>

text \<open>
  The handlers of \<^verbatim>\<open>server.py\<close> receive their arguments as \<^verbatim>\<open>dict[str, Any] | None\<close>,
  decoded from JSON. A value is therefore one of the Python values JSON decodes to. A
  \<^verbatim>\<open>dict\<close> is kept as the list of its items in insertion order; a key is looked up with
  \<open>map_of\<close>. A float is kept by its literal: no operation of the program computes with it.
\<close>

datatype py_value =
    PyNone
  | PyBool bool
  | PyInt int
  | PyFloat string
  | PyStr string
  | PyList "py_value list"
  | PyDict "(string \<times> py_value) list"

type_synonym py_dict = "(string \<times> py_value) list"

text \<open>
  \<^verbatim>\<open>mcp.types\<close>: the error codes are the JSON-RPC ones; \<^verbatim>\<open>ErrorData\<close> carries a code and a
  message; \<^verbatim>\<open>McpError(error)\<close> is the exception raised by the handlers, and
  \<^verbatim>\<open>McpError.__init__\<close> passes \<^verbatim>\<open>error.message\<close> to \<^verbatim>\<open>Exception.__init__\<close>, so that
  \<^verbatim>\<open>str(e)\<close> is the message.
\<close>

definition INVALID_PARAMS :: int where
  "INVALID_PARAMS = - 32602"

definition INTERNAL_ERROR :: int where
  "INTERNAL_ERROR = - 32603"

record ErrorData =
  code :: int
  message :: string

datatype McpError = McpError (error: ErrorData)

definition str_McpError :: "McpError \<Rightarrow> string" where
  "str_McpError e = message (error e)"

text \<open>The field \<^verbatim>\<open>text\<close> of \<^verbatim>\<open>TextContent\<close> and of a response is a keyword of Isabelle: the
  fields are \<open>content_type\<close>, \<open>content_text\<close> and \<open>resp_text\<close> here.\<close>

record TextContent =
  content_type :: string
  content_text :: string

record Tool =
  tool_name :: string
  tool_description :: string
  tool_inputSchema :: py_value

record PromptArgument =
  arg_name :: string
  arg_description :: string
  arg_required :: bool

record Prompt =
  prompt_name :: string
  prompt_description :: string
  prompt_arguments :: "PromptArgument list"

record PromptMessage =
  role :: string
  content :: TextContent

record GetPromptResult =
  description :: string
  messages :: "PromptMessage list"

section \<open>The libraries, as far as the program uses them\<close>

subsection \<open>requests\<close>

text \<open>
  A \<^verbatim>\<open>requests.Session\<close> is modelled by its ordered dictionary \<^verbatim>\<open>adapters\<close>, from URL prefix
  to transport adapter, and an adapter by its retry budget \<^verbatim>\<open>max_retries\<close>
  (\<^verbatim>\<open>DEFAULT_RETRIES = 0\<close> in \<^verbatim>\<open>requests.adapters\<close>).
  \<^verbatim>\<open>
  def mount(self, prefix, adapter):
      self.adapters[prefix] = adapter
      keys_to_move = [k for k in self.adapters if len(k) < len(prefix)]
      for key in keys_to_move:
          self.adapters[key] = self.adapters.pop(key)

  def get_adapter(self, url):
      for (prefix, adapter) in self.adapters.items():
          if url.lower().startswith(prefix.lower()):
              return adapter
      raise InvalidSchema(...)
  \<close>
  \<^verbatim>\<open>Session.__init__\<close> mounts a default adapter for \<^verbatim>\<open>https://\<close> and then one for
  \<^verbatim>\<open>http://\<close>.
\<close>

record HTTPAdapter =
  max_retries :: nat

definition DEFAULT_RETRIES :: nat where
  "DEFAULT_RETRIES = 0"

type_synonym Session = "(string \<times> HTTPAdapter) list"

definition mount :: "Session \<Rightarrow> string \<Rightarrow> HTTPAdapter \<Rightarrow> Session" where
  "mount adapters pre adapter =
     (let adapters' = AList.update pre adapter adapters;
          keys_to_move = filter (\<lambda>(k, a). length k < length pre) adapters'
      in filter (\<lambda>(k, a). \<not> length k < length pre) adapters' @ keys_to_move)"

definition new_Session :: Session where
  "new_Session =
     mount (mount [] ''https://'' \<lparr>max_retries = DEFAULT_RETRIES\<rparr>)
       ''http://'' \<lparr>max_retries = DEFAULT_RETRIES\<rparr>"

text \<open>\<^verbatim>\<open>str.lower\<close> on the ASCII letters (a \<open>char\<close> is a byte).\<close>

definition lower_char :: "char \<Rightarrow> char" where
  "lower_char c =
     (if (65::nat) \<le> of_char c \<and> of_char c \<le> (90::nat)
      then char_of (of_char c + (32::nat)) else c)"

definition lower :: "string \<Rightarrow> string" where
  "lower s = map lower_char s"

text \<open>What an adapter is asked to send: the method, the URL, the query parameters, the
  timeout, and the retry budget of the adapter, which is the one that serves the URL.\<close>

record http_request =
  req_method :: string
  req_url :: string
  req_params :: py_dict
  req_timeout :: nat
  req_retries :: nat

text \<open>A response: its status, the URL its \<^verbatim>\<open>Location\<close> header resolves to (\<open>None\<close> without
  the header), and its body as \<^verbatim>\<open>Response.text\<close> decodes it.\<close>

record Response =
  status_code :: nat
  resp_location :: "string option"
  resp_text :: string

datatype py_exception =
    ConnectionError string
  | Timeout string
  | HTTPError Response
  | InvalidSchema string
  | TooManyRedirects string
  | OtherException string

fun get_adapter :: "Session \<Rightarrow> string \<Rightarrow> py_exception + HTTPAdapter" where
  "get_adapter [] url = Inl (InvalidSchema url)"
| "get_adapter ((pre, adapter) # adapters) url =
     (if prefix (lower pre) (lower url) then Inr adapter else get_adapter adapters url)"

text \<open>\<^verbatim>\<open>Response.raise_for_status\<close> raises \<^verbatim>\<open>HTTPError\<close> for a status from 400 to 599 and
  returns otherwise.\<close>

definition raise_for_status :: "Response \<Rightarrow> py_exception + unit" where
  "raise_for_status resp =
     (if 400 \<le> status_code resp \<and> status_code resp < 600 then Inl (HTTPError resp)
      else Inr ())"

text \<open>
  \<^verbatim>\<open>Session.get\<close> follows redirects (\<^verbatim>\<open>allow_redirects\<close> defaults to \<^verbatim>\<open>True\<close>). A response
  is a redirect when its status is one of \<^verbatim>\<open>REDIRECT_STATI\<close> and it has a \<^verbatim>\<open>Location\<close>
  header; \<^verbatim>\<open>max_redirects\<close> of a session is \<^verbatim>\<open>DEFAULT_REDIRECT_LIMIT = 30\<close>.
\<close>

definition REDIRECT_STATI :: "nat list" where
  "REDIRECT_STATI = [301, 302, 303, 307, 308]"

definition DEFAULT_REDIRECT_LIMIT :: nat where
  "DEFAULT_REDIRECT_LIMIT = 30"

definition get_redirect_target :: "Response \<Rightarrow> string option" where
  "get_redirect_target resp =
     (if status_code resp \<in> set REDIRECT_STATI then resp_location resp else None)"

subsection \<open>pydantic\<close>

text \<open>A \<^verbatim>\<open>ValidationError\<close> of the one-field model: the field is missing (the input is the
  whole mapping), or its value is not a string (the input is the value).\<close>

datatype validation_error =
    Missing string py_value
  | StringType string py_value

subsection \<open>The environment\<close>

text \<open>
  What the program cannot compute by itself is a parameter: the outcome of sending a
  request (the remote service and the network: a response, or the exception raised),
  Python's \<^verbatim>\<open>repr\<close> of an exception, and \<^verbatim>\<open>str\<close> of a pydantic \<^verbatim>\<open>ValidationError\<close>.
  The remote service is deterministic: the outcome is a function of the request. The
  outcome is that of one request sent through one adapter, the adapter's retries included;
  a redirect is followed by \<open>resolve_redirects\<close> below, with a request of its own.
\<close>

record environment =
  adapter_send :: "http_request \<Rightarrow> py_exception + Response"
  exception_repr :: "py_exception \<Rightarrow> string"
  validation_error_str :: "validation_error \<Rightarrow> string"

text \<open>The effects of a run that the claims speak of, in the order they happen: a
  session is constructed, an adapter is mounted, the program issues a request by calling
  \<^verbatim>\<open>session.get\<close>, and the library sends a further request when it follows a redirect.\<close>

datatype effect =
    SessionCreated
  | AdapterMounted string nat
  | GetIssued http_request
  | RedirectFollowed http_request

text \<open>
  \<^verbatim>\<open>Session.resolve_redirects\<close>, by the number of redirects that may still be followed:
  while the response is a redirect, the target is requested with the same method and
  timeout through the adapter that serves the target's URL (the target carries its own
  query string), and \<^verbatim>\<open>TooManyRedirects\<close> is raised once the limit is used up. The result is
  the final response or the exception raised, with the requests sent on the way.
\<close>

fun resolve_redirects ::
  "environment \<Rightarrow> Session \<Rightarrow> nat \<Rightarrow> nat \<Rightarrow> Response
    \<Rightarrow> (py_exception + Response) \<times> effect list" where
  "resolve_redirects env session timeout 0 resp =
     (case get_redirect_target resp of
        None \<Rightarrow> (Inr resp, [])
      | Some url \<Rightarrow> (Inl (TooManyRedirects ''Exceeded 30 redirects.''), []))"
| "resolve_redirects env session timeout (Suc remaining) resp =
     (case get_redirect_target resp of
        None \<Rightarrow> (Inr resp, [])
      | Some url \<Rightarrow>
          (case get_adapter session url of
             Inl e \<Rightarrow> (Inl e, [])
           | Inr adapter \<Rightarrow>
               (let req = \<lparr>req_method = ''GET'', req_url = url, req_params = [],
                           req_timeout = timeout, req_retries = max_retries adapter\<rparr>
                in case adapter_send env req of
                     Inl e \<Rightarrow> (Inl e, [RedirectFollowed req])
                   | Inr resp' \<Rightarrow>
                       (case resolve_redirects env session timeout remaining resp' of
                          (r, sent) \<Rightarrow> (r, RedirectFollowed req # sent)))))"

text \<open>\<^verbatim>\<open>session.get(url, params=..., timeout=...)\<close>: the request goes through the adapter
  that serves the URL, and the redirects of its response are followed.\<close>

definition session_get ::
  "environment \<Rightarrow> Session \<Rightarrow> string \<Rightarrow> py_dict \<Rightarrow> nat \<Rightarrow> effect list
    \<Rightarrow> (py_exception + Response) \<times> effect list" where
  "session_get env session url params timeout log =
     (case get_adapter session url of
        Inl e \<Rightarrow> (Inl e, log)
      | Inr adapter \<Rightarrow>
          (let req = \<lparr>req_method = ''GET'', req_url = url, req_params = params,
                      req_timeout = timeout, req_retries = max_retries adapter\<rparr>;
               log = log @ [GetIssued req]
           in case adapter_send env req of
                Inl e \<Rightarrow> (Inl e, log)
              | Inr resp \<Rightarrow>
                  (case resolve_redirects env session timeout DEFAULT_REDIRECT_LIMIT resp of
                     (r, sent) \<Rightarrow> (r, log @ sent))))"

section \<open>server.py\<close>

definition PAYNOW_COMPONENT_DOCS_MCP_SERVER_API :: string where
  "PAYNOW_COMPONENT_DOCS_MCP_SERVER_API =
     ''https://mcp.owlting.com/paynow-component-docs/get-paynow-component-documentation''"

record SearchArgs =
  query :: string

text \<open>\<^verbatim>\<open>SearchArgs(**kwargs)\<close>: the field \<^verbatim>\<open>query: str = Field(...)\<close> is required and a
  string; no other constraint is declared, and other keys are ignored.\<close>

definition SearchArgs_init :: "py_dict \<Rightarrow> validation_error + SearchArgs" where
  "SearchArgs_init kwargs =
     (case map_of kwargs ''query'' of
        None \<Rightarrow> Inl (Missing ''query'' (PyDict kwargs))
      | Some (PyStr s) \<Rightarrow> Inr \<lparr>query = s\<rparr>
      | Some v \<Rightarrow> Inl (StringType ''query'' v))"

text \<open>\<^verbatim>\<open>SearchArgs.model_json_schema()\<close> for this class.\<close>

definition SearchArgs_model_json_schema :: py_value where
  "SearchArgs_model_json_schema =
     PyDict
      [(''description'', PyStr ''Parameters for searching PayNow Component documentation.''),
       (''properties'', PyDict
          [(''query'', PyDict
             [(''description'', PyStr ''Search keywords in English. Any non-English input will be auto-translated to English before populating this field.''),
              (''title'', PyStr ''Query''),
              (''type'', PyStr ''string'')])]),
       (''required'', PyList [PyStr ''query'']),
       (''title'', PyStr ''SearchArgs''),
       (''type'', PyStr ''object'')]"

text \<open>The body of the \<^verbatim>\<open>try\<close> block of \<^verbatim>\<open>search_paynow_component_documentation\<close>: the
  exception it raises, or the text it returns.\<close>

definition search_try ::
  "environment \<Rightarrow> py_value \<Rightarrow> effect list \<Rightarrow> (py_exception + string) \<times> effect list" where
  "search_try env q log =
     (let session = new_Session;
          session = mount session ''http://'' \<lparr>max_retries = 3\<rparr>;
          log = log @ [SessionCreated, AdapterMounted ''http://'' 3];
          (r, log) = session_get env session PAYNOW_COMPONENT_DOCS_MCP_SERVER_API
                       [(''query'', q), (''lang'', PyStr ''en'')] 30 log
      in case r of
           Inl e \<Rightarrow> (Inl e, log)
         | Inr resp \<Rightarrow>
             (case raise_for_status resp of
                Inl e \<Rightarrow> (Inl e, log)
              | Inr u \<Rightarrow> (Inr (resp_text resp), log)))"

definition search_paynow_component_documentation ::
  "environment \<Rightarrow> py_value \<Rightarrow> effect list \<Rightarrow> (McpError + string) \<times> effect list" where
  "search_paynow_component_documentation env q log =
     (case search_try env q log of
        (Inl e, log') \<Rightarrow>
          (Inl (McpError \<lparr>code = INTERNAL_ERROR,
                  message = ''Failed to search documentation: '' @ exception_repr env e\<rparr>), log')
      | (Inr t, log') \<Rightarrow> (Inr t, log'))"

definition list_tools :: "Tool list" where
  "list_tools =
     [\<lparr>tool_name = ''search_paynow_component_documentation'',
       tool_description = ''Search PayNow Component documentation. Any non-English input will be auto-translated to English before populating the query.'',
       tool_inputSchema = SearchArgs_model_json_schema\<rparr>]"

definition list_prompts :: "Prompt list" where
  "list_prompts =
     [\<lparr>prompt_name = ''search_paynow_component_documentation'',
       prompt_description = ''Search PayNow Component documentation and return matching sections'',
       prompt_arguments =
         [\<lparr>arg_name = ''query'',
           arg_description = ''Search query in English. Any non-English input will be auto-translated to English before filling this argument.'',
           arg_required = True\<rparr>]\<rparr>]"

text \<open>\<^verbatim>\<open>arguments or {}\<close>: \<^verbatim>\<open>None\<close> and the empty mapping are falsy.\<close>

definition or_empty :: "py_dict option \<Rightarrow> py_dict" where
  "or_empty arguments = (case arguments of None \<Rightarrow> [] | Some d \<Rightarrow> if d = [] then [] else d)"

definition call_tool ::
  "environment \<Rightarrow> string \<Rightarrow> py_dict option \<Rightarrow> effect list
    \<Rightarrow> (McpError + TextContent list) \<times> effect list" where
  "call_tool env name arguments log =
     (case SearchArgs_init (or_empty arguments) of
        Inl e \<Rightarrow>
          (Inl (McpError \<lparr>code = INVALID_PARAMS, message = validation_error_str env e\<rparr>), log)
      | Inr args \<Rightarrow>
          (case search_paynow_component_documentation env (PyStr (query args)) log of
             (Inl err, log') \<Rightarrow> (Inl err, log')
           | (Inr result, log') \<Rightarrow>
               (Inr [\<lparr>content_type = ''text'', content_text = result\<rparr>], log')))"

text \<open>\<^verbatim>\<open>not arguments or "query" not in arguments\<close> raises; otherwise
  \<^verbatim>\<open>arguments["query"]\<close> is the value under the key, whatever its type.\<close>

definition get_prompt ::
  "environment \<Rightarrow> string \<Rightarrow> py_dict option \<Rightarrow> effect list
    \<Rightarrow> (McpError + GetPromptResult) \<times> effect list" where
  "get_prompt env name arguments log =
     (case (case arguments of
              None \<Rightarrow> None
            | Some d \<Rightarrow> if d = [] then None else map_of d ''query'') of
        None \<Rightarrow>
          (Inl (McpError \<lparr>code = INVALID_PARAMS, message = ''Query is required''\<rparr>), log)
      | Some v \<Rightarrow>
          (case search_paynow_component_documentation env v log of
             (Inl e, log') \<Rightarrow>
               (Inr \<lparr>description = ''Search failed'',
                     messages = [\<lparr>role = ''user'',
                       content = \<lparr>content_type = ''text'', content_text = str_McpError e\<rparr>\<rparr>]\<rparr>,
                log')
           | (Inr result, log') \<Rightarrow>
               (Inr \<lparr>description = ''Search results'',
                     messages = [\<lparr>role = ''user'',
                       content = \<lparr>content_type = ''text'', content_text = result\<rparr>\<rparr>]\<rparr>,
                log')))"

section \<open>Notions the properties are stated with\<close>

text \<open>The value an argument mapping holds under a key (\<^verbatim>\<open>None\<close> holds no key).\<close>

definition py_get :: "py_dict option \<Rightarrow> string \<Rightarrow> py_value option" where
  "py_get arguments k = (case arguments of None \<Rightarrow> None | Some d \<Rightarrow> map_of d k)"

text \<open>The entry of a dictionary value under a key, as a JSON schema is read.\<close>

definition dict_get :: "py_value \<Rightarrow> string \<Rightarrow> py_value option" where
  "dict_get v k = (case v of PyDict d \<Rightarrow> map_of d k | _ \<Rightarrow> None)"

text \<open>The requests the program issued by calling \<^verbatim>\<open>session.get\<close>, in order, and the number
  of sessions constructed, as a log records them.\<close>

fun remote_calls :: "effect list \<Rightarrow> http_request list" where
  "remote_calls [] = []"
| "remote_calls (GetIssued req # es) = req # remote_calls es"
| "remote_calls (e # es) = remote_calls es"

fun sessions_created :: "effect list \<Rightarrow> nat" where
  "sessions_created [] = 0"
| "sessions_created (SessionCreated # es) = Suc (sessions_created es)"
| "sessions_created (e # es) = sessions_created es"

text \<open>The request \<^verbatim>\<open>search_paynow_component_documentation\<close> issues for a query (lemma
  \<open>search_try_eq\<close> below), and the effects every invocation of it starts with.\<close>

definition search_request :: "py_value \<Rightarrow> http_request" where
  "search_request q =
     \<lparr>req_method = ''GET'', req_url = PAYNOW_COMPONENT_DOCS_MCP_SERVER_API,
      req_params = [(''query'', q), (''lang'', PyStr ''en'')],
      req_timeout = 30, req_retries = 0\<rparr>"

definition search_effects :: "py_value \<Rightarrow> effect list" where
  "search_effects q =
     [SessionCreated, AdapterMounted ''http://'' 3, GetIssued (search_request q)]"






text \<open>Environments for the concrete instances: a remote service that answers every
  request with one status and body, one whose transport raises, and one that redirects
  every request to a target URL and answers the request for the target; \<^verbatim>\<open>repr\<close> and
  \<^verbatim>\<open>str\<close> are rendered by the class name.\<close>

fun repr_by_class :: "py_exception \<Rightarrow> string" where
  "repr_by_class (ConnectionError m) = ''ConnectionError('' @ m @ '')''"
| "repr_by_class (Timeout m) = ''Timeout('' @ m @ '')''"
| "repr_by_class (HTTPError resp) = ''HTTPError()''"
| "repr_by_class (InvalidSchema m) = ''InvalidSchema('' @ m @ '')''"
| "repr_by_class (TooManyRedirects m) = ''TooManyRedirects('' @ m @ '')''"
| "repr_by_class (OtherException m) = ''Exception('' @ m @ '')''"

fun str_by_type :: "validation_error \<Rightarrow> string" where
  "str_by_type (Missing loc v) = loc @ '': Field required''"
| "str_by_type (StringType loc v) = loc @ '': Input should be a valid string''"

definition env_returning :: "nat \<Rightarrow> string \<Rightarrow> environment" where
  "env_returning status body =
     \<lparr>adapter_send =
        (\<lambda>req. Inr \<lparr>status_code = status, resp_location = None, resp_text = body\<rparr>),
      exception_repr = repr_by_class, validation_error_str = str_by_type\<rparr>"

definition env_raising :: "py_exception \<Rightarrow> environment" where
  "env_raising e =
     \<lparr>adapter_send = (\<lambda>req. Inl e),
      exception_repr = repr_by_class, validation_error_str = str_by_type\<rparr>"

definition env_redirecting :: "string \<Rightarrow> string \<Rightarrow> environment" where
  "env_redirecting target body =
     \<lparr>adapter_send =
        (\<lambda>req. if req_url req = target
           then Inr \<lparr>status_code = 200, resp_location = None, resp_text = body\<rparr>
           else Inr \<lparr>status_code = 302, resp_location = Some target, resp_text = []\<rparr>),
      exception_repr = repr_by_class, validation_error_str = str_by_type\<rparr>"

section \<open>Properties\<close>

subsection \<open>What the remote-search function does\<close>

lemma mounted_session:
  "mount new_Session ''http://'' \<lparr>max_retries = 3\<rparr> =
     [(''https://'', \<lparr>max_retries = 0\<rparr>), (''http://'', \<lparr>max_retries = 3\<rparr>)]"
  by (simp add: mount_def new_Session_def DEFAULT_RETRIES_def)

lemma adapter_for_api:
  "get_adapter (mount new_Session ''http://'' \<lparr>max_retries = 3\<rparr>)
     PAYNOW_COMPONENT_DOCS_MCP_SERVER_API = Inr \<lparr>max_retries = 0\<rparr>"
  by (simp add: mounted_session PAYNOW_COMPONENT_DOCS_MCP_SERVER_API_def lower_def lower_char_def)

lemma remote_calls_append: "remote_calls (xs @ ys) = remote_calls xs @ remote_calls ys"
  by (induction xs rule: remote_calls.induct) simp_all


lemma no_redirect_target:
  "status_code resp \<notin> set REDIRECT_STATI \<Longrightarrow> get_redirect_target resp = None"
  by (simp add: get_redirect_target_def)

lemma no_redirect_success:
  "200 \<le> status_code resp \<Longrightarrow> status_code resp < 300 \<Longrightarrow> get_redirect_target resp = None"
  by (rule no_redirect_target) (auto simp: REDIRECT_STATI_def)


lemma resolve_redirects_none:
  "get_redirect_target resp = None \<Longrightarrow>
     resolve_redirects env session timeout remaining resp = (Inr resp, [])"
  by (cases remaining) simp_all

lemma resolve_redirects_step:
  assumes "0 < remaining"
  shows "resolve_redirects env session timeout remaining resp =
     (case get_redirect_target resp of
        None \<Rightarrow> (Inr resp, [])
      | Some url \<Rightarrow>
          (case get_adapter session url of
             Inl e \<Rightarrow> (Inl e, [])
           | Inr adapter \<Rightarrow>
               (let req = \<lparr>req_method = ''GET'', req_url = url, req_params = [],
                           req_timeout = timeout, req_retries = max_retries adapter\<rparr>
                in case adapter_send env req of
                     Inl e \<Rightarrow> (Inl e, [RedirectFollowed req])
                   | Inr resp' \<Rightarrow>
                       (case resolve_redirects env session timeout (remaining - 1) resp' of
                          (r, sent) \<Rightarrow> (r, RedirectFollowed req # sent)))))"
  using assms
  by (cases remaining) (auto simp: Let_def split: option.split sum.split)

lemma resolve_redirects_sent:
  "remote_calls (snd (resolve_redirects env session timeout remaining resp)) = [] \<and>
   sessions_created (snd (resolve_redirects env session timeout remaining resp)) = 0"
proof (induction remaining arbitrary: resp)
  case 0
  show ?case by (simp split: option.split)
next
  case (Suc remaining)
  have sent: "remote_calls sent = [] \<and> sessions_created sent = 0"
    if "resolve_redirects env session timeout remaining resp' = (r, sent)" for resp' r sent
    using Suc.IH [of resp'] that by simp
  show ?case
    by (auto simp: Let_def sent split: option.split sum.split prod.split)
qed

text \<open>The \<^verbatim>\<open>try\<close> block: the effects every invocation starts with, the outcome of the
  request issued, and the redirects followed from its response.\<close>

lemma search_try_eq:
  "search_try env q log =
     (case adapter_send env (search_request q) of
        Inl e \<Rightarrow> (Inl e, log @ search_effects q)
      | Inr resp \<Rightarrow>
          (case resolve_redirects env (mount new_Session ''http://'' \<lparr>max_retries = 3\<rparr>)
                  30 DEFAULT_REDIRECT_LIMIT resp of
             (Inl e, sent) \<Rightarrow> (Inl e, log @ search_effects q @ sent)
           | (Inr final, sent) \<Rightarrow>
               (if 400 \<le> status_code final \<and> status_code final < 600
                then Inl (HTTPError final) else Inr (resp_text final),
                log @ search_effects q @ sent)))"
  by (simp add: search_try_def session_get_def adapter_for_api search_request_def
      search_effects_def raise_for_status_def split: sum.split prod.split)

lemma search_try_frame:
  "search_try env q log = (fst (search_try env q []), log @ snd (search_try env q []))"
  by (simp add: search_try_eq split: sum.split prod.split)

lemma search_frame:
  "search_paynow_component_documentation env q log =
     (fst (search_paynow_component_documentation env q []),
      log @ snd (search_paynow_component_documentation env q []))"
proof (cases "search_try env q []")
  case (Pair r sent)
  then have "search_try env q log = (r, log @ sent)"
    using search_try_frame [of env q log] by simp
  with Pair show ?thesis
    by (simp add: search_paynow_component_documentation_def split: sum.split)
qed

lemma search_try_effects:
  "\<exists>sent. snd (search_try env q log) = log @ search_effects q @ sent \<and>
     remote_calls sent = [] \<and> sessions_created sent = 0"
proof (cases "adapter_send env (search_request q)")
  case (Inl e)
  then show ?thesis by (simp add: search_try_eq)
next
  case (Inr resp)
  obtain r sent where rs: "resolve_redirects env (mount new_Session ''http://''
      \<lparr>max_retries = 3\<rparr>) 30 DEFAULT_REDIRECT_LIMIT resp = (r, sent)"
    by (cases "resolve_redirects env (mount new_Session ''http://''
      \<lparr>max_retries = 3\<rparr>) 30 DEFAULT_REDIRECT_LIMIT resp") blast
  have "remote_calls sent = [] \<and> sessions_created sent = 0"
    using resolve_redirects_sent [of env "mount new_Session ''http://'' \<lparr>max_retries = 3\<rparr>"
        30 DEFAULT_REDIRECT_LIMIT resp] rs by simp
  moreover have "snd (search_try env q log) = log @ search_effects q @ sent"
    using Inr rs by (simp add: search_try_eq split: sum.split)
  ultimately show ?thesis by blast
qed

lemma search_effects_form:
  "\<exists>sent. snd (search_paynow_component_documentation env q log) =
       log @ search_effects q @ sent \<and>
     remote_calls sent = [] \<and> sessions_created sent = 0"
proof -
  have "snd (search_paynow_component_documentation env q log) = snd (search_try env q log)"
    by (simp add: search_paynow_component_documentation_def split: prod.split sum.split)
  then show ?thesis
    using search_try_effects [of env q log] by simp
qed

text \<open>The two outcomes without a redirect: the transport raises, or the response of the
  request issued is no redirect.\<close>

lemma search_raises:
  assumes "adapter_send env (search_request q) = Inl e"
  shows "search_paynow_component_documentation env q log =
     (Inl (McpError \<lparr>code = INTERNAL_ERROR,
        message = ''Failed to search documentation: '' @ exception_repr env e\<rparr>),
      log @ search_effects q)"
  using assms by (simp add: search_paynow_component_documentation_def search_try_eq)

lemma search_responds:
  assumes "adapter_send env (search_request q) = Inr resp"
    and "get_redirect_target resp = None"
  shows "search_paynow_component_documentation env q log =
     (if 400 \<le> status_code resp \<and> status_code resp < 600
      then Inl (McpError \<lparr>code = INTERNAL_ERROR,
             message = ''Failed to search documentation: ''
               @ exception_repr env (HTTPError resp)\<rparr>)
      else Inr (resp_text resp),
      log @ search_effects q)"
  using assms
  by (simp add: search_paynow_component_documentation_def search_try_eq
      resolve_redirects_none)


text \<open>The search function in the environments of the concrete instances.\<close>

lemma search_env_returning:
  "search_paynow_component_documentation (env_returning status body) q log =
     (if 400 \<le> status \<and> status < 600
      then Inl (McpError \<lparr>code = INTERNAL_ERROR,
             message = ''Failed to search documentation: HTTPError()''\<rparr>)
      else Inr body,
      log @ search_effects q)"
proof -
  have sent: "adapter_send (env_returning status body) (search_request q) =
      Inr \<lparr>status_code = status, resp_location = None, resp_text = body\<rparr>"
    by (simp add: env_returning_def)
  have target: "get_redirect_target
      \<lparr>status_code = status, resp_location = None, resp_text = body\<rparr> = None"
    by (simp add: get_redirect_target_def)
  show ?thesis
    by (simp add: search_responds [OF sent target]) (simp add: env_returning_def)
qed

lemma search_env_raising:
  "search_paynow_component_documentation (env_raising e) q log =
     (Inl (McpError \<lparr>code = INTERNAL_ERROR,
        message = ''Failed to search documentation: '' @ repr_by_class e\<rparr>),
      log @ search_effects q)"
proof -
  have "adapter_send (env_raising e) (search_request q) = Inl e"
    by (simp add: env_raising_def)
  then show ?thesis
    by (simp add: search_raises) (simp add: env_raising_def)
qed

text \<open>A redirect is followed with a request of its own, through the adapter that serves
  the target: a target under \<^verbatim>\<open>http://\<close> goes through the adapter mounted by the program.\<close>

lemma search_env_redirecting:
  "search_paynow_component_documentation (env_redirecting ''http://docs.test/a'' ''moved'')
     (PyStr ''refund'') [] =
     (Inr ''moved'',
      search_effects (PyStr ''refund'') @
      [RedirectFollowed \<lparr>req_method = ''GET'', req_url = ''http://docs.test/a'',
         req_params = [], req_timeout = 30, req_retries = 3\<rparr>])"
proof -
  have first: "adapter_send (env_redirecting ''http://docs.test/a'' ''moved'')
      (search_request (PyStr ''refund'')) =
      Inr \<lparr>status_code = 302, resp_location = Some ''http://docs.test/a'', resp_text = []\<rparr>"
    by (simp add: env_redirecting_def search_request_def
        PAYNOW_COMPONENT_DOCS_MCP_SERVER_API_def)
  have followed: "resolve_redirects (env_redirecting ''http://docs.test/a'' ''moved'')
      (mount new_Session ''http://'' \<lparr>max_retries = 3\<rparr>) 30 DEFAULT_REDIRECT_LIMIT
      \<lparr>status_code = 302, resp_location = Some ''http://docs.test/a'', resp_text = []\<rparr> =
      (Inr \<lparr>status_code = 200, resp_location = None, resp_text = ''moved''\<rparr>,
       [RedirectFollowed \<lparr>req_method = ''GET'', req_url = ''http://docs.test/a'',
          req_params = [], req_timeout = 30, req_retries = 3\<rparr>])"
    apply (simp only: DEFAULT_REDIRECT_LIMIT_def)
    apply (subst resolve_redirects_step, simp)
    apply (simp add: mounted_session get_redirect_target_def REDIRECT_STATI_def lower_def
        lower_char_def env_redirecting_def resolve_redirects_none)
    done
  show ?thesis
    by (simp add: search_paynow_component_documentation_def search_try_eq first followed)
qed

lemma search_remote_calls:
  "remote_calls (snd (search_paynow_component_documentation env q log)) =
     remote_calls log @ [search_request q]"
  using search_effects_form [of env q log]
  by (auto simp: remote_calls_append search_effects_def)


subsection \<open>Validation of the arguments\<close>

lemma SearchArgs_init_Inr:
  "SearchArgs_init (or_empty arguments) = Inr args \<longleftrightarrow>
     py_get arguments ''query'' = Some (PyStr (query args))"
  by (cases arguments)
    (auto simp: SearchArgs_init_def or_empty_def py_get_def
      split: option.splits py_value.splits)

lemma SearchArgs_init_Inl:
  "(\<exists>e. SearchArgs_init (or_empty arguments) = Inl e) \<longleftrightarrow>
     (\<forall>s. py_get arguments ''query'' \<noteq> Some (PyStr s))"
  by (cases arguments)
    (auto simp: SearchArgs_init_def or_empty_def py_get_def
      split: option.splits py_value.splits)

lemma call_tool_valid:
  assumes "py_get arguments ''query'' = Some (PyStr s)"
  shows "call_tool env name arguments log =
     (case search_paynow_component_documentation env (PyStr s) log of
        (Inl err, log') \<Rightarrow> (Inl err, log')
      | (Inr result, log') \<Rightarrow>
          (Inr [\<lparr>content_type = ''text'', content_text = result\<rparr>], log'))"
proof -
  have "SearchArgs_init (or_empty arguments) = Inr \<lparr>query = s\<rparr>"
    using assms by (simp add: SearchArgs_init_Inr)
  then show ?thesis
    by (simp add: call_tool_def)
qed

lemma get_prompt_present:
  assumes "py_get arguments ''query'' = Some v"
  shows "get_prompt env name arguments log =
     (case search_paynow_component_documentation env v log of
        (Inl e, log') \<Rightarrow>
          (Inr \<lparr>description = ''Search failed'',
                messages = [\<lparr>role = ''user'',
                  content = \<lparr>content_type = ''text'', content_text = str_McpError e\<rparr>\<rparr>]\<rparr>,
           log')
      | (Inr result, log') \<Rightarrow>
          (Inr \<lparr>description = ''Search results'',
                messages = [\<lparr>role = ''user'',
                  content = \<lparr>content_type = ''text'', content_text = result\<rparr>\<rparr>]\<rparr>,
           log'))"
proof -
  from assms obtain d where d: "arguments = Some d" "map_of d ''query'' = Some v"
    by (auto simp: py_get_def split: option.splits)
  then have "d \<noteq> []" by auto
  with d show ?thesis
    by (simp add: get_prompt_def)
qed

lemma get_prompt_absent:
  assumes "py_get arguments ''query'' = None"
  shows "get_prompt env name arguments log =
     (Inl (McpError \<lparr>code = INVALID_PARAMS, message = ''Query is required''\<rparr>), log)"
  using assms by (auto simp: get_prompt_def py_get_def split: option.splits)


lemma search_result_any_log:
  "fst (search_paynow_component_documentation env q log) =
     fst (search_paynow_component_documentation env q log')"
proof -
  have "fst (search_paynow_component_documentation env q l) =
      fst (search_paynow_component_documentation env q [])" for l
  proof -
    have "search_paynow_component_documentation env q l =
        (fst (search_paynow_component_documentation env q []),
         l @ snd (search_paynow_component_documentation env q []))"
      by (rule search_frame)
    then have "fst (search_paynow_component_documentation env q l) =
        fst (fst (search_paynow_component_documentation env q []),
         l @ snd (search_paynow_component_documentation env q []))"
      by (rule arg_cong)
    then show ?thesis by (simp only: fst_conv)
  qed
  from this [of log] this [of log'] show ?thesis by (rule trans_sym)
qed

lemma call_tool_result:
  assumes "SearchArgs_init (or_empty arguments) = Inr args"
  shows "fst (call_tool env name arguments log) =
     (case fst (search_paynow_component_documentation env (PyStr (query args)) log) of
        Inl err \<Rightarrow> Inl err
      | Inr result \<Rightarrow> Inr [\<lparr>content_type = ''text'', content_text = result\<rparr>])"
proof (cases "search_paynow_component_documentation env (PyStr (query args)) log")
  case (Pair r log')
  with assms show ?thesis
    by (cases r) (simp_all add: call_tool_def)
qed

lemma call_tool_result_any_log:
  "fst (call_tool env name arguments log) = fst (call_tool env name arguments log')"
proof (cases "SearchArgs_init (or_empty arguments)")
  case (Inl e)
  then show ?thesis by (simp add: call_tool_def)
next
  case (Inr args)
  have same: "fst (search_paynow_component_documentation env (PyStr (query args)) log) =
      fst (search_paynow_component_documentation env (PyStr (query args)) log')"
    by (rule search_result_any_log)
  show ?thesis
    by (simp only: call_tool_result [OF Inr] same)
qed




subsection \<open>The tool invocation\<close>

text \<open>
  C1, as the program has it. The tool invocation proceeds to the remote call exactly when
  the argument mapping holds a string under \<^verbatim>\<open>query\<close>, the empty string included: it then
  issues the one request for that string. Otherwise the mapping does not deserialize, the
  invocation raises an InvalidParameters error whose message is the validation failure
  message, and no request is issued (the log is unchanged).
\<close>

theorem call_tool_validation:
  "(\<forall>s. py_get arguments ''query'' = Some (PyStr s) \<longrightarrow>
      SearchArgs_init (or_empty arguments) = Inr \<lparr>query = s\<rparr> \<and>
      remote_calls (snd (call_tool env name arguments log)) =
        remote_calls log @ [search_request (PyStr s)]) \<and>
   ((\<forall>s. py_get arguments ''query'' \<noteq> Some (PyStr s)) \<longrightarrow>
      (\<exists>e. SearchArgs_init (or_empty arguments) = Inl e \<and>
        call_tool env name arguments log =
          (Inl (McpError \<lparr>code = INVALID_PARAMS, message = validation_error_str env e\<rparr>),
           log)))"
proof (intro conjI allI impI)
  fix s
  assume present: "py_get arguments ''query'' = Some (PyStr s)"
  then show "SearchArgs_init (or_empty arguments) = Inr \<lparr>query = s\<rparr>"
    by (simp add: SearchArgs_init_Inr)
  show "remote_calls (snd (call_tool env name arguments log)) =
      remote_calls log @ [search_request (PyStr s)]"
  proof -
    have "snd (call_tool env name arguments log) =
        snd (search_paynow_component_documentation env (PyStr s) log)"
      by (simp add: call_tool_valid [OF present] split: prod.split sum.split)
    then show ?thesis
      by (simp add: search_remote_calls)
  qed
next
  assume "\<forall>s. py_get arguments ''query'' \<noteq> Some (PyStr s)"
  then obtain e where e: "SearchArgs_init (or_empty arguments) = Inl e"
    using SearchArgs_init_Inl by blast
  then have "call_tool env name arguments log =
      (Inl (McpError \<lparr>code = INVALID_PARAMS, message = validation_error_str env e\<rparr>), log)"
    by (simp add: call_tool_def)
  with e show "\<exists>e. SearchArgs_init (or_empty arguments) = Inl e \<and>
      call_tool env name arguments log =
        (Inl (McpError \<lparr>code = INVALID_PARAMS, message = validation_error_str env e\<rparr>), log)"
    by blast
qed

text \<open>An instance of each half: a string under \<^verbatim>\<open>query\<close>, and an integer under it.\<close>

theorem call_tool_validation_witness:
  "remote_calls (snd (call_tool (env_returning 200 ''ok'') ''search''
      (Some [(''query'', PyStr ''refund'')]) [])) = [search_request (PyStr ''refund'')] \<and>
   call_tool (env_returning 200 ''ok'') ''search'' (Some [(''query'', PyInt 5)]) [] =
     (Inl (McpError \<lparr>code = INVALID_PARAMS,
        message = ''query: Input should be a valid string''\<rparr>), [])"
proof -
  have present: "py_get (Some [(''query'', PyStr ''refund'')]) ''query'' = Some (PyStr ''refund'')"
    by (simp add: py_get_def)
  have absent: "\<forall>s. py_get (Some [(''query'', PyInt 5)]) ''query'' \<noteq> Some (PyStr s)"
    by (simp add: py_get_def)
  have first: "remote_calls (snd (call_tool (env_returning 200 ''ok'') ''search''
      (Some [(''query'', PyStr ''refund'')]) [])) = [search_request (PyStr ''refund'')]"
    using call_tool_validation [of "Some [(''query'', PyStr ''refund'')]"
        "env_returning 200 ''ok''" "''search''" "[]"] present
    by simp
  have second: "call_tool (env_returning 200 ''ok'') ''search'' (Some [(''query'', PyInt 5)]) [] =
     (Inl (McpError \<lparr>code = INVALID_PARAMS,
        message = ''query: Input should be a valid string''\<rparr>), [])"
    using call_tool_validation [of "Some [(''query'', PyInt 5)]"
        "env_returning 200 ''ok''" "''search''" "[]"] absent
    by (auto simp: SearchArgs_init_def or_empty_def env_returning_def)
  from first second show ?thesis by simp
qed

text \<open>
  C1, as the specification states it, fails: with the empty string under \<^verbatim>\<open>query\<close> the
  mapping deserializes (to a query object whose string is empty) and the invocation
  proceeds to the remote call, returning the remote body.
\<close>

theorem call_tool_empty_query_counterexample:
  "SearchArgs_init (or_empty (Some [(''query'', PyStr [])])) = Inr \<lparr>query = []\<rparr> \<and>
   call_tool (env_returning 200 ''ok'') ''search'' (Some [(''query'', PyStr [])]) [] =
     (Inr [\<lparr>content_type = ''text'', content_text = ''ok''\<rparr>],
      [SessionCreated, AdapterMounted ''http://'' 3, GetIssued (search_request (PyStr []))])"
  by (simp add: SearchArgs_init_def or_empty_def call_tool_def search_env_returning
      search_effects_def)

text \<open>
  C5. For every argument mapping that deserializes, when the remote service answers the
  request with a response of a success status (200 to 299) and body \<open>B\<close>, the tool
  invocation returns a list of exactly one text content item whose text is \<open>B\<close>.
\<close>

theorem call_tool_success_text:
  assumes "SearchArgs_init (or_empty arguments) = Inr args"
    and "adapter_send env (search_request (PyStr (query args))) = Inr resp"
    and "200 \<le> status_code resp" and "status_code resp < 300"
  shows "fst (call_tool env name arguments log) =
    Inr [\<lparr>content_type = ''text'', content_text = resp_text resp\<rparr>]"
  using assms(3,4)
  by (simp add: call_tool_result [OF assms(1)]
      search_responds [OF assms(2) no_redirect_success [OF assms(3,4)]])

theorem call_tool_success_text_witness:
  "SearchArgs_init (or_empty (Some [(''query'', PyStr ''refund policy'')])) =
     Inr \<lparr>query = ''refund policy''\<rparr> \<and>
   fst (call_tool (env_returning 200 ''Refund policy: ...'')
     ''search_paynow_component_documentation''
     (Some [(''query'', PyStr ''refund policy'')]) []) =
     Inr [\<lparr>content_type = ''text'', content_text = ''Refund policy: ...''\<rparr>]"
proof -
  have valid: "SearchArgs_init (or_empty (Some [(''query'', PyStr ''refund policy'')])) =
      Inr \<lparr>query = ''refund policy''\<rparr>"
    by (simp add: SearchArgs_init_def or_empty_def)
  have answer: "adapter_send (env_returning 200 ''Refund policy: ...'')
      (search_request (PyStr (query \<lparr>query = ''refund policy''\<rparr>))) =
      Inr \<lparr>status_code = 200, resp_location = None, resp_text = ''Refund policy: ...''\<rparr>"
    by (simp add: env_returning_def)
  show ?thesis
    using valid call_tool_success_text [OF valid answer] by simp
qed




text \<open>
  C9. Invoking the tool twice with the same arguments against the remote service (a
  function of the request) yields the same result both times: the result of an invocation
  does not depend on the effects of earlier invocations, and the same holds for the
  remote-search function itself.
\<close>

theorem call_tool_idempotent:
  "fst (call_tool env name arguments (snd (call_tool env name arguments log))) =
     fst (call_tool env name arguments log) \<and>
   fst (search_paynow_component_documentation env q
          (snd (search_paynow_component_documentation env q log))) =
     fst (search_paynow_component_documentation env q log)"
proof
  show "fst (call_tool env name arguments (snd (call_tool env name arguments log))) =
      fst (call_tool env name arguments log)"
    by (rule call_tool_result_any_log)
  show "fst (search_paynow_component_documentation env q
          (snd (search_paynow_component_documentation env q log))) =
      fst (search_paynow_component_documentation env q log)"
    by (rule search_result_any_log)
qed

subsection \<open>The prompt invocation\<close>

text \<open>
  C2. For every argument mapping that holds key \<^verbatim>\<open>query\<close>, if the remote search call
  raises, the prompt invocation does not raise: it returns a prompt result whose description
  is \<^verbatim>\<open>Search failed\<close> and whose single message has, as its text, \<^verbatim>\<open>str\<close> of the error that
  was raised.
\<close>

theorem get_prompt_search_failed:
  assumes "py_get arguments ''query'' = Some v"
    and "fst (search_paynow_component_documentation env v log) = Inl e"
  shows "fst (get_prompt env name arguments log) =
    Inr \<lparr>description = ''Search failed'',
         messages = [\<lparr>role = ''user'',
           content = \<lparr>content_type = ''text'', content_text = str_McpError e\<rparr>\<rparr>]\<rparr>"
proof (cases "search_paynow_component_documentation env v log")
  case (Pair r log')
  with assms(2) have "r = Inl e" by simp
  with Pair show ?thesis
    by (simp add: get_prompt_present [OF assms(1)])
qed

theorem get_prompt_search_failed_witness:
  "py_get (Some [(''query'', PyStr ''x'')]) ''query'' = Some (PyStr ''x'') \<and>
   fst (get_prompt (env_raising (ConnectionError ''refused'')) ''search''
     (Some [(''query'', PyStr ''x'')]) []) =
     Inr \<lparr>description = ''Search failed'',
          messages = [\<lparr>role = ''user'',
            content = \<lparr>content_type = ''text'',
              content_text = ''Failed to search documentation: ConnectionError(refused)''\<rparr>\<rparr>]\<rparr>"
proof -
  have present: "py_get (Some [(''query'', PyStr ''x'')]) ''query'' = Some (PyStr ''x'')"
    by (simp add: py_get_def)
  have fails: "fst (search_paynow_component_documentation
      (env_raising (ConnectionError ''refused'')) (PyStr ''x'') []) =
      Inl (McpError \<lparr>code = INTERNAL_ERROR,
        message = ''Failed to search documentation: ConnectionError(refused)''\<rparr>)"
    by (simp add: search_env_raising)
  show ?thesis
    using present get_prompt_search_failed [OF present fails]
    by (simp add: str_McpError_def)
qed

text \<open>
  C4. The prompt invocation raises the InvalidParameters error with message
  \<^verbatim>\<open>Query is required\<close> if and only if the argument mapping does not hold key \<^verbatim>\<open>query\<close>.
  When the key is there, the value under it is not validated, whatever its type and
  whether empty or not: the invocation does not raise, and the remote-search function is
  called with that value, which goes into the one request issued.
\<close>

theorem get_prompt_query_required:
  "(fst (get_prompt env name arguments log) =
      Inl (McpError \<lparr>code = INVALID_PARAMS, message = ''Query is required''\<rparr>)
    \<longleftrightarrow> py_get arguments ''query'' = None) \<and>
   (\<forall>v. py_get arguments ''query'' = Some v \<longrightarrow>
      (\<exists>r. fst (get_prompt env name arguments log) = Inr r) \<and>
      snd (get_prompt env name arguments log) =
        snd (search_paynow_component_documentation env v log) \<and>
      remote_calls (snd (get_prompt env name arguments log)) =
        remote_calls log @ [search_request v])"
proof (intro conjI allI impI)
  show "fst (get_prompt env name arguments log) =
      Inl (McpError \<lparr>code = INVALID_PARAMS, message = ''Query is required''\<rparr>)
    \<longleftrightarrow> py_get arguments ''query'' = None"
  proof (cases "py_get arguments ''query''")
    case None
    then show ?thesis by (simp add: get_prompt_absent)
  next
    case (Some v)
    then show ?thesis
      by (simp add: get_prompt_present [OF Some] split: prod.splits sum.splits)
  qed
next
  fix v
  assume present: "py_get arguments ''query'' = Some v"
  show "\<exists>r. fst (get_prompt env name arguments log) = Inr r"
    by (simp add: get_prompt_present [OF present] split: prod.splits sum.splits)
  show "snd (get_prompt env name arguments log) =
      snd (search_paynow_component_documentation env v log)"
    by (simp add: get_prompt_present [OF present] split: prod.splits sum.splits)
  then show "remote_calls (snd (get_prompt env name arguments log)) =
      remote_calls log @ [search_request v]"
    by (simp add: search_remote_calls)
qed

text \<open>Instances: the empty mapping, and a mapping with a list under \<^verbatim>\<open>query\<close>.\<close>

theorem get_prompt_query_required_witness:
  "fst (get_prompt (env_returning 200 ''ok'') ''search'' (Some []) []) =
     Inl (McpError \<lparr>code = INVALID_PARAMS, message = ''Query is required''\<rparr>) \<and>
   py_get (Some [(''query'', PyList [])]) ''query'' = Some (PyList []) \<and>
   remote_calls (snd (get_prompt (env_returning 200 ''ok'') ''search''
     (Some [(''query'', PyList [])]) [])) = [search_request (PyList [])]"
proof -
  have absent: "py_get (Some []) ''query'' = None"
    by (simp add: py_get_def)
  have present: "py_get (Some [(''query'', PyList [])]) ''query'' = Some (PyList [])"
    by (simp add: py_get_def)
  have first: "fst (get_prompt (env_returning 200 ''ok'') ''search'' (Some []) []) =
     Inl (McpError \<lparr>code = INVALID_PARAMS, message = ''Query is required''\<rparr>)"
    using get_prompt_query_required [of "env_returning 200 ''ok''" "''search''" "Some []" "[]"]
      absent
    by simp
  have "remote_calls (snd (get_prompt (env_returning 200 ''ok'') ''search''
     (Some [(''query'', PyList [])]) [])) = remote_calls [] @ [search_request (PyList [])]"
    using get_prompt_query_required [of "env_returning 200 ''ok''" "''search''"
        "Some [(''query'', PyList [])]" "[]"] present
    by blast
  then have second: "remote_calls (snd (get_prompt (env_returning 200 ''ok'') ''search''
     (Some [(''query'', PyList [])]) [])) = [search_request (PyList [])]"
    by simp
  from first present second show ?thesis by simp
qed

subsection \<open>Both handlers\<close>

text \<open>
  C10. Neither handler depends on its \<^verbatim>\<open>name\<close> parameter: for any two names and the same
  argument mapping, the tool-invocation handler gives the same result or error and the
  same effects, and so does the prompt-invocation handler.
\<close>

theorem handlers_ignore_name:
  "call_tool env n1 arguments log = call_tool env n2 arguments log \<and>
   get_prompt env n1 arguments log = get_prompt env n2 arguments log"
  by (simp add: call_tool_def get_prompt_def)

subsection \<open>The listing of the tools\<close>

text \<open>
  C8. The list-tools operation has no failure: it returns exactly one tool descriptor,
  whose name is \<^verbatim>\<open>search_paynow_component_documentation\<close> and whose input schema declares
  one property, \<^verbatim>\<open>query\<close>, of type string, and lists it as required.
\<close>

theorem list_tools_descriptor:
  "\<exists>t props. list_tools = [t] \<and>
     tool_name t = ''search_paynow_component_documentation'' \<and>
     dict_get (tool_inputSchema t) ''type'' = Some (PyStr ''object'') \<and>
     dict_get (tool_inputSchema t) ''properties'' = Some (PyDict [(''query'', props)]) \<and>
     dict_get props ''type'' = Some (PyStr ''string'') \<and>
     dict_get (tool_inputSchema t) ''required'' = Some (PyList [PyStr ''query''])"
  by (simp add: list_tools_def SearchArgs_model_json_schema_def dict_get_def)

subsection \<open>The HTTP session and the request\<close>



text \<open>
  C6, evaluated for the query \<^verbatim>\<open>refund policy\<close> with a transport whose connection fails.
  The function issues one GET against the fixed URL with the parameters \<^verbatim>\<open>query\<close> and
  \<^verbatim>\<open>lang=en\<close> and a timeout of 30. The adapter with the retry budget of 3 is mounted for
  the prefix \<^verbatim>\<open>http://\<close>; the URL starts with \<^verbatim>\<open>https://\<close>, so the request is served by the
  session's default adapter, whose retry budget is 0.
\<close>

theorem search_request_retry_budget:
  "search_paynow_component_documentation (env_raising (ConnectionError ''reset''))
     (PyStr ''refund policy'') [] =
     (Inl (McpError \<lparr>code = INTERNAL_ERROR,
        message = ''Failed to search documentation: ConnectionError(reset)''\<rparr>),
      [SessionCreated, AdapterMounted ''http://'' 3,
       GetIssued \<lparr>req_method = ''GET'',
         req_url = ''https://mcp.owlting.com/paynow-component-docs/get-paynow-component-documentation'',
         req_params = [(''query'', PyStr ''refund policy''), (''lang'', PyStr ''en'')],
         req_timeout = 30, req_retries = 0\<rparr>])"
  by (simp add: search_env_raising search_effects_def search_request_def
      PAYNOW_COMPONENT_DOCS_MCP_SERVER_API_def)

end
